theory Spec2Isabelle
  imports Main "HOL-Library.Word"
begin

section \<open>Python values and the object store\<close>

text \<open>
  \<^verbatim>\<open>sentinelhub_statistical.py\<close> builds nested dictionaries and, in \<^verbatim>\<open>body\<close>, writes into
  dictionaries that the caller still holds. A Python dictionary is an object held by
  reference, so the model keeps dictionaries in a store and values refer to them by
  address. Tuples, lists and strings are not written to by this module and are plain values.
\<close>

type_synonym addr = nat

datatype val =
    VNone
  | VBool bool
  | VInt int
  | VFloat "64 word"   \<comment> \<open>a float, by its bit pattern: the module only stores it\<close>
  | VStr string
  | VList "val list"
  | VRef addr          \<comment> \<open>a dictionary object\<close>

text \<open>A dictionary keeps its keys in insertion order, as Python's \<^verbatim>\<open>dict\<close> does.\<close>

type_synonym dict = "(string \<times> val) list"

record heap =
  objs :: "addr \<Rightarrow> dict"
  nextaddr :: addr   \<comment> \<open>every object made so far lives below this address\<close>

text \<open>A dictionary display \<^verbatim>\<open>{...}\<close> makes a new object.\<close>

definition alloc :: "dict \<Rightarrow> heap \<Rightarrow> addr \<times> heap" where
  "alloc d h = (nextaddr h, h\<lparr>objs := (objs h)(nextaddr h := d), nextaddr := Suc (nextaddr h)\<rparr>)"

text \<open>\<^verbatim>\<open>k in d\<close>\<close>

definition has_key :: "string \<Rightarrow> dict \<Rightarrow> bool" where
  "has_key k d = (k \<in> fst ` set d)"

text \<open>\<^verbatim>\<open>d[k] = v\<close> on the entries: an existing key keeps its place, a new key goes last.\<close>

fun dict_set :: "string \<Rightarrow> val \<Rightarrow> dict \<Rightarrow> dict" where
  "dict_set k v [] = [(k, v)]"
| "dict_set k v ((k', v') # d) = (if k' = k then (k, v) # d else (k', v') # dict_set k v d)"

text \<open>\<^verbatim>\<open>d[k] = v\<close> on the object at address \<open>a\<close>.\<close>

definition setitem :: "addr \<Rightarrow> string \<Rightarrow> val \<Rightarrow> heap \<Rightarrow> heap" where
  "setitem a k v h = h\<lparr>objs := (objs h)(a := dict_set k v (objs h a))\<rparr>"

text \<open>
  The truth value of an \<^verbatim>\<open>other_args\<close> argument, which is \<^verbatim>\<open>None\<close> or a dictionary:
  \<^verbatim>\<open>None\<close> and the empty dictionary are false.
\<close>

definition truthy :: "addr option \<Rightarrow> heap \<Rightarrow> bool" where
  "truthy other_args h = (case other_args of None \<Rightarrow> False | Some a \<Rightarrow> objs h a \<noteq> [])"

section \<open>\<^verbatim>\<open>SentinelHubStatistical.body\<close>\<close>

text \<open>
  \<^verbatim>\<open>
  for input_data_payload in request_data:
      if 'dataFilter' not in input_data_payload:
          input_data_payload['dataFilter'] = {}
  \<close>
  \<open>request_data\<close> is a list of dictionaries (\<^verbatim>\<open>List[dict]\<close>), given by their addresses.
\<close>

fun add_data_filters :: "addr list \<Rightarrow> heap \<Rightarrow> heap" where
  "add_data_filters [] h = h"
| "add_data_filters (input_data_payload # rest) h =
     (if \<not> has_key ''dataFilter'' (objs h input_data_payload)
      then (case alloc [] h of (e, h1) \<Rightarrow>
              add_data_filters rest (setitem input_data_payload ''dataFilter'' (VRef e) h1))
      else add_data_filters rest h)"

text \<open>
  \<^verbatim>\<open>_update_other_args\<close> comes from \<^verbatim>\<open>sh_utils\<close>, which is not part of the sources at hand; it
  is the parameter \<open>update_other_args\<close>: called with the target dictionary and the
  overrides, it writes into the store or raises. The argument \<^verbatim>\<open>aggregation\<close> is written
  \<open>aggregation'\<close>, since \<open>aggregation\<close> is the method below.
\<close>

definition body ::
  "(addr \<Rightarrow> addr \<Rightarrow> heap \<Rightarrow> 'e + heap) \<Rightarrow> val \<Rightarrow> addr list \<Rightarrow> val \<Rightarrow> val \<Rightarrow> addr option
     \<Rightarrow> heap \<Rightarrow> 'e + addr \<times> heap" where
  "body update_other_args request_bounds request_data aggregation' calculations other_args h =
     (let h1 = add_data_filters request_data h;
          (calculations', h2) =
             (if calculations = VNone
              then (case alloc [] h1 of (e, h') \<Rightarrow>
                      (case alloc [(''default'', VRef e)] h' of (c, h'') \<Rightarrow> (VRef c, h'')))
              else (calculations, h1));
          (input, h3) =
             alloc [(''bounds'', request_bounds), (''data'', VList (map VRef request_data))] h2;
          (request_body, h4) =
             alloc [(''input'', VRef input), (''aggregation'', aggregation'),
                    (''calculations'', calculations')] h3
      in (case other_args of
            None \<Rightarrow> Inr (request_body, h4)
          | Some oa \<Rightarrow>
              if truthy other_args h4
              then (case update_other_args request_body oa h4 of
                      Inl err \<Rightarrow> Inl err
                    | Inr h5 \<Rightarrow> Inr (request_body, h5))
              else Inr (request_body, h4)))"

section \<open>\<^verbatim>\<open>SentinelHubStatistical.aggregation\<close>\<close>

text \<open>
  \<^verbatim>\<open>parse_time_interval\<close> and \<^verbatim>\<open>serialize_time\<close> come from \<^verbatim>\<open>time_utils\<close>, which is not part of
  the sources at hand; they are parameters. Each returns or raises; the second argument is
  the keyword argument the call passes (\<^verbatim>\<open>allow_undefined=True\<close>, \<^verbatim>\<open>use_tz=True\<close>). The result of
  \<^verbatim>\<open>serialize_time\<close> is unpacked into two values. \<open>size\<close> (here \<open>size'\<close>) and \<open>resolution\<close>
  are \<^verbatim>\<open>None\<close> or a pair; a pair is true in a condition.
\<close>

definition aggregation ::
  "(addr \<Rightarrow> addr \<Rightarrow> heap \<Rightarrow> 'e + heap) \<Rightarrow> ('t \<Rightarrow> bool \<Rightarrow> 'e + 'i) \<Rightarrow> ('i \<Rightarrow> bool \<Rightarrow> 'e + val \<times> val)
     \<Rightarrow> val \<Rightarrow> 't \<Rightarrow> val \<Rightarrow> (val \<times> val) option \<Rightarrow> (val \<times> val) option \<Rightarrow> addr option
     \<Rightarrow> heap \<Rightarrow> 'e + addr \<times> heap" where
  "aggregation update_other_args parse_time_interval serialize_time
       evalscript time_interval aggregation_interval size' resolution other_args h =
     (case parse_time_interval time_interval True of
        Inl err \<Rightarrow> Inl err
      | Inr interval \<Rightarrow>
     (case serialize_time interval True of
        Inl err \<Rightarrow> Inl err
      | Inr (start_time, end_time) \<Rightarrow>
     (let (time_range, h1) = alloc [(''from'', start_time), (''to'', end_time)] h;
          (interval_of, h2) = alloc [(''of'', aggregation_interval)] h1;
          (payload, h3) =
             alloc [(''evalscript'', evalscript), (''timeRange'', VRef time_range),
                    (''aggregationInterval'', VRef interval_of)] h2;
          h4 = (case size' of
                  None \<Rightarrow> h3
                | Some (width, height) \<Rightarrow>
                    setitem payload ''height'' height (setitem payload ''width'' width h3));
          h5 = (case resolution of
                  None \<Rightarrow> h4
                | Some (resx, resy) \<Rightarrow>
                    setitem payload ''resy'' resy (setitem payload ''resx'' resx h4))
      in (case other_args of
            None \<Rightarrow> Inr (payload, h5)
          | Some oa \<Rightarrow>
              if truthy other_args h5
              then (case update_other_args payload oa h5 of
                      Inl err \<Rightarrow> Inl err
                    | Inr h6 \<Rightarrow> Inr (payload, h6))
              else Inr (payload, h5)))))"

section \<open>\<^verbatim>\<open>SentinelHubStatistical.__init__\<close>\<close>

text \<open>
  Modelled from the spec: the \<^verbatim>\<open>MimeType\<close> enumeration of \<^verbatim>\<open>constants\<close>, whose source is not at
  hand. The spec gives the declared response type as \<^verbatim>\<open>mime_type: enum{JSON,...}\<close>; the
  members other than \<open>JSON\<close> are told apart by name.
\<close>

datatype MimeType = JSON | OtherMimeType string

text \<open>The two attributes that the constructor sets itself.\<close>

record request =
  mime_type :: MimeType
  payload :: val

text \<open>
  \<^verbatim>\<open>self.bounds\<close> and the constructor of the base class are in \<^verbatim>\<open>sentinelhub_base_api\<close>, which
  is not part of the sources at hand; they are the parameters \<open>bounds\<close> and \<open>super_init\<close>.
  \<open>bounds\<close> returns the bounds of the request or raises, and may make dictionaries;
  \<open>super_init\<close> stands for
  \<^verbatim>\<open>super().__init__(SentinelHubStatisticalDownloadClient, **kwargs)\<close>: it gets the object as the
  constructor has left it, and returns it or raises. \<open>body\<close> is called without \<open>other_args\<close>.
\<close>

definition init ::
  "(addr \<Rightarrow> addr \<Rightarrow> heap \<Rightarrow> 'e + heap) \<Rightarrow> ('b option \<Rightarrow> 'g option \<Rightarrow> heap \<Rightarrow> 'e + val \<times> heap)
     \<Rightarrow> ('k \<Rightarrow> request \<Rightarrow> heap \<Rightarrow> 'e + request \<times> heap)
     \<Rightarrow> val \<Rightarrow> addr list \<Rightarrow> 'b option \<Rightarrow> 'g option \<Rightarrow> val \<Rightarrow> 'k \<Rightarrow> heap \<Rightarrow> 'e + request \<times> heap" where
  "init update_other_args bounds super_init aggregation' input_data bbox geometry calculations kwargs h =
     (case bounds bbox geometry h of
        Inl err \<Rightarrow> Inl err
      | Inr (request_bounds, h1) \<Rightarrow>
     (case body update_other_args request_bounds input_data aggregation' calculations None h1 of
        Inl err \<Rightarrow> Inl err
      | Inr (p, h2) \<Rightarrow> super_init kwargs \<lparr>mime_type = JSON, payload = VRef p\<rparr> h2))"

section \<open>Collaborators, for concrete calls\<close>

text \<open>
  Modelled from the spec: \<^verbatim>\<open>_update_other_args\<close> of \<^verbatim>\<open>sh_utils\<close>, whose source is not at hand.
  The spec gives it as \<^verbatim>\<open>update_other_args(target: dict, overrides: dict) -> None\<close>, which
  "mutates \<^verbatim>\<open>target\<close>, overrides win on key conflicts", and leaves open whether dictionaries
  nested under a conflicting key are merged in turn. Here every key of the overrides is
  written into the target with the value the overrides give it. The theorems below hold
  for any merge function; this one only stands in for it where a call is evaluated.
\<close>

fun update_entries :: "addr \<Rightarrow> dict \<Rightarrow> heap \<Rightarrow> heap" where
  "update_entries target [] h = h"
| "update_entries target ((k, v) # overrides) h = update_entries target overrides (setitem target k v h)"

definition spec_update_other_args :: "addr \<Rightarrow> addr \<Rightarrow> heap \<Rightarrow> string + heap" where
  "spec_update_other_args target overrides h = Inr (update_entries target (objs h overrides) h)"

text \<open>
  A store to call the functions in: two input-data dictionaries, the first without
  \<open>dataFilter\<close>, the filter of the second, a bounds dictionary, an aggregation dictionary,
  an empty dictionary and a calculations dictionary.
\<close>

definition example_heap :: heap where
  "example_heap =
     \<lparr>objs = (\<lambda>_. [])
        (0 := [(''type'', VStr ''sentinel-2-l2a'')],
         1 := [(''type'', VStr ''landsat-ot-l1''), (''dataFilter'', VRef 2)],
         2 := [(''maxCloudCoverage'', VInt 20)],
         3 := [(''bbox'', VList [VInt 13, VInt 45, VInt 14, VInt 46])],
         4 := [(''evalscript'', VStr ''return [B04]'')],
         5 := [],
         6 := [(''default'', VRef 5), (''ndvi'', VRef 5)]),
      nextaddr = 7\<rparr>"

text \<open>
  The same store with four more dictionaries, for calls that pass \<open>other_args\<close>: an
  input-data dictionary without \<open>dataFilter\<close>, an \<open>input\<close> dictionary holding it, overrides
  that replace \<open>input\<close>, and overrides for an aggregation payload.
\<close>

definition override_heap :: heap where
  "override_heap =
     example_heap
       \<lparr>objs := (objs example_heap)
          (7 := [(''type'', VStr ''sentinel-1-grd'')],
           8 := [(''bounds'', VRef 3), (''data'', VList [VRef 7])],
           9 := [(''input'', VRef 8)],
           10 := [(''width'', VInt 7), (''resx'', VInt 3)]),
        nextaddr := 11\<rparr>"

text \<open>
  Modelled from the spec: \<^verbatim>\<open>parse_time_interval\<close> and \<^verbatim>\<open>serialize_time\<close> of \<^verbatim>\<open>time_utils\<close>, whose
  source is not at hand. The spec gives them as
  \<^verbatim>\<open>parse_time_interval(interval, allow_undefined: bool) -> normalized interval\<close> and
  \<^verbatim>\<open>serialize_time(interval, use_tz: bool) -> (from_str, to_str)\<close>, has a malformed interval
  raise, and has \<^verbatim>\<open>("2020-01-01", "2020-02-01")\<close> serialized as
  \<^verbatim>\<open>("2020-01-01T00:00:00Z", "2020-02-01T00:00:00Z")\<close>. These two do that much, on an interval
  that is undefined or a pair of dates, where a date without characters is malformed. The
  theorems below hold for any pair of functions; these only stand in for them where a call
  is evaluated.
\<close>

definition spec_parse_time_interval ::
  "(string \<times> string) option \<Rightarrow> bool \<Rightarrow> string + (string \<times> string) option" where
  "spec_parse_time_interval time_interval allow_undefined =
     (case time_interval of
        None \<Rightarrow> if allow_undefined then Inr None else Inl ''ValueError''
      | Some (start, end) \<Rightarrow>
          if start = [] \<or> end = [] then Inl ''ValueError'' else Inr (Some (start, end)))"

definition spec_serialize_time :: "(string \<times> string) option \<Rightarrow> bool \<Rightarrow> string + val \<times> val" where
  "spec_serialize_time interval use_tz =
     (case interval of
        None \<Rightarrow> Inr (VNone, VNone)
      | Some (start, end) \<Rightarrow>
          Inr (VStr (start @ ''T00:00:00'' @ (if use_tz then ''Z'' else [])),
               VStr (end @ ''T00:00:00'' @ (if use_tz then ''Z'' else []))))"

text \<open>
  Modelled from the spec: \<^verbatim>\<open>bounds\<close> and \<^verbatim>\<open>__init__\<close> of \<^verbatim>\<open>SentinelHubBaseApiRequest\<close>, whose
  source is not at hand. The spec gives the first as
  \<^verbatim>\<open>bounds(bbox, geometry) -> bounds-descriptor\<close>, "failing if both or neither are supplied",
  and has the base request type hand the finished payload to the download client, with no
  effect on the payload or the MIME type. The descriptor here is a new dictionary holding
  what was supplied. The theorems below hold for any pair of functions; these only stand in
  for them where a call is evaluated.
\<close>

definition spec_bounds :: "val option \<Rightarrow> val option \<Rightarrow> heap \<Rightarrow> string + val \<times> heap" where
  "spec_bounds bbox geometry h =
     (case (bbox, geometry) of
        (Some b, None) \<Rightarrow> (case alloc [(''bbox'', b)] h of (r, h') \<Rightarrow> Inr (VRef r, h'))
      | (None, Some g) \<Rightarrow> (case alloc [(''geometry'', g)] h of (r, h') \<Rightarrow> Inr (VRef r, h'))
      | _ \<Rightarrow> Inl ''ValueError'')"

definition spec_super_init :: "unit \<Rightarrow> request \<Rightarrow> heap \<Rightarrow> string + request \<times> heap" where
  "spec_super_init kwargs self h = Inr (self, h)"

text \<open>One round of the loop on an element without the key, for the proofs.\<close>

definition filled :: "addr \<Rightarrow> heap \<Rightarrow> heap" where
  "filled a h = setitem a ''dataFilter'' (VRef (nextaddr h)) (snd (alloc [] h))"

section \<open>Properties of the \<^verbatim>\<open>dataFilter\<close> loop\<close>

lemma dict_set_absent: "\<not> has_key k d \<Longrightarrow> dict_set k v d = d @ [(k, v)]"
  by (induction d) (auto simp: has_key_def)

lemma has_key_append: "has_key k (d @ [(k, v)])"
  by (simp add: has_key_def)

lemma add_data_filters_absent:
  "\<not> has_key ''dataFilter'' (objs h a) \<Longrightarrow>
     add_data_filters (a # as) h = add_data_filters as (filled a h)"
  by (simp add: filled_def alloc_def)

lemma nextaddr_filled: "nextaddr (filled a h) = Suc (nextaddr h)"
  by (simp add: filled_def setitem_def alloc_def)

lemma objs_filled_self:
  "a < nextaddr h \<Longrightarrow> \<not> has_key ''dataFilter'' (objs h a) \<Longrightarrow>
     objs (filled a h) a = objs h a @ [(''dataFilter'', VRef (nextaddr h))]"
  by (simp add: filled_def setitem_def alloc_def dict_set_absent)

lemma objs_filled_other: "x \<noteq> a \<Longrightarrow> x < nextaddr h \<Longrightarrow> objs (filled a h) x = objs h x"
  by (simp add: filled_def setitem_def alloc_def)

lemma objs_filled_new: "a < nextaddr h \<Longrightarrow> objs (filled a h) (nextaddr h) = []"
  by (simp add: filled_def setitem_def alloc_def)

lemma nextaddr_add_data_filters: "nextaddr h \<le> nextaddr (add_data_filters as h)"
proof (induction as arbitrary: h)
  case Nil
  show ?case by simp
next
  case (Cons a as)
  show ?case
  proof (cases "has_key ''dataFilter'' (objs h a)")
    case True
    with Cons.IH [of h] show ?thesis by simp
  next
    case False
    from Cons.IH [of "filled a h"] have "nextaddr h \<le> nextaddr (add_data_filters as (filled a h))"
      by (simp add: nextaddr_filled)
    then show ?thesis by (simp only: add_data_filters_absent [OF False])
  qed
qed

text \<open>
  The loop leaves an object alone unless it is an element without the key: objects that
  are not in the list, and elements that have the key already.
\<close>

lemma add_data_filters_unchanged:
  "x < nextaddr h \<Longrightarrow> x \<notin> set as \<or> has_key ''dataFilter'' (objs h x) \<Longrightarrow>
     objs (add_data_filters as h) x = objs h x"
proof (induction as arbitrary: h)
  case Nil
  show ?case by simp
next
  case (Cons a as)
  show ?case
  proof (cases "has_key ''dataFilter'' (objs h a)")
    case True
    from Cons.prems have "x \<notin> set as \<or> has_key ''dataFilter'' (objs h x)" by auto
    with Cons.IH [of h] Cons.prems(1) True show ?thesis by simp
  next
    case False
    with Cons.prems have neq: "x \<noteq> a" by auto
    with Cons.prems have same: "objs (filled a h) x = objs h x"
      by (simp add: objs_filled_other)
    from Cons.prems neq have "x \<notin> set as \<or> has_key ''dataFilter'' (objs (filled a h) x)"
      by (auto simp: same)
    moreover from Cons.prems(1) have "x < nextaddr (filled a h)" by (simp add: nextaddr_filled)
    ultimately have "objs (add_data_filters as (filled a h)) x = objs (filled a h) x"
      by (rule Cons.IH [rotated])
    with same show ?thesis by (simp only: add_data_filters_absent [OF False])
  qed
qed

text \<open>
  An element without the key gets it as its last entry, bound to a dictionary that the
  loop has made and that is empty when the loop ends.
\<close>

lemma add_data_filters_gained:
  assumes "\<forall>a\<in>set as. a < nextaddr h"
    and "x \<in> set as"
    and "\<not> has_key ''dataFilter'' (objs h x)"
  shows "\<exists>e. nextaddr h \<le> e \<and> e < nextaddr (add_data_filters as h)
            \<and> objs (add_data_filters as h) x = objs h x @ [(''dataFilter'', VRef e)]
            \<and> objs (add_data_filters as h) e = []"
  using assms
proof (induction as arbitrary: h)
  case Nil
  then show ?case by simp
next
  case (Cons a as)
  from Cons.prems(1) have a_old: "a < nextaddr h" and as_old: "\<forall>b\<in>set as. b < nextaddr h"
    by simp_all
  show ?case
  proof (cases "has_key ''dataFilter'' (objs h a)")
    case True
    with Cons.prems have "x \<in> set as" by auto
    from Cons.IH [OF as_old this Cons.prems(3)] True show ?thesis by simp
  next
    case False
    let ?h = "filled a h"
    have step: "add_data_filters (a # as) h = add_data_filters as ?h"
      using False by (rule add_data_filters_absent)
    have as_old': "\<forall>b\<in>set as. b < nextaddr ?h"
      using as_old by (auto simp: nextaddr_filled)
    show ?thesis
    proof (cases "x = a")
      case True
      have got: "objs ?h a = objs h a @ [(''dataFilter'', VRef (nextaddr h))]"
        using a_old False by (rule objs_filled_self)
      have "objs (add_data_filters as ?h) a = objs ?h a"
      proof (rule add_data_filters_unchanged)
        show "a < nextaddr ?h" using a_old by (simp add: nextaddr_filled)
        show "a \<notin> set as \<or> has_key ''dataFilter'' (objs ?h a)"
          by (simp add: got has_key_append)
      qed
      moreover have "objs (add_data_filters as ?h) (nextaddr h) = objs ?h (nextaddr h)"
      proof (rule add_data_filters_unchanged)
        show "nextaddr h < nextaddr ?h" by (simp add: nextaddr_filled)
        show "nextaddr h \<notin> set as \<or> has_key ''dataFilter'' (objs ?h (nextaddr h))"
          using as_old by auto
      qed
      moreover have "nextaddr h < nextaddr (add_data_filters as ?h)"
        using nextaddr_add_data_filters [of ?h as] by (simp add: nextaddr_filled)
      ultimately show ?thesis
        unfolding step using True got objs_filled_new [OF a_old]
        by (intro exI [of _ "nextaddr h"]) simp
    next
      case neq: False
      with Cons.prems have x_in: "x \<in> set as" by auto
      from Cons.prems(1,2) have "x < nextaddr h" by auto
      with neq have same: "objs ?h x = objs h x" by (simp add: objs_filled_other)
      with Cons.prems(3) have "\<not> has_key ''dataFilter'' (objs ?h x)" by simp
      from Cons.IH [OF as_old' x_in this] obtain e where
        "nextaddr ?h \<le> e" "e < nextaddr (add_data_filters as ?h)"
        "objs (add_data_filters as ?h) x = objs ?h x @ [(''dataFilter'', VRef e)]"
        "objs (add_data_filters as ?h) e = []"
        by blast
      then show ?thesis unfolding step by (auto simp: same nextaddr_filled)
    qed
  qed
qed

text \<open>When every element has the key the loop writes nothing.\<close>

lemma add_data_filters_idle:
  "\<forall>a\<in>set as. has_key ''dataFilter'' (objs h a) \<Longrightarrow> add_data_filters as h = h"
  by (induction as) simp_all

text \<open>After the loop every element has the key.\<close>

lemma add_data_filters_has_key:
  assumes "\<forall>a\<in>set as. a < nextaddr h" and "x \<in> set as"
  shows "has_key ''dataFilter'' (objs (add_data_filters as h) x)"
proof (cases "has_key ''dataFilter'' (objs h x)")
  case True
  from assms have "x < nextaddr h" by blast
  with True show ?thesis by (simp add: add_data_filters_unchanged)
next
  case False
  from add_data_filters_gained [OF assms False] show ?thesis
    by (auto simp: has_key_append)
qed

section \<open>Properties of \<^verbatim>\<open>body\<close>\<close>

text \<open>
  Without \<open>other_args\<close> the result of \<open>body\<close> is the store after the loop with the new
  dictionaries on top: two more when \<open>calculations\<close> is \<^verbatim>\<open>None\<close>.
\<close>

lemma body_default_calculations:
  "body upd rb rd agg VNone None h =
     (let h1 = add_data_filters rd h; n = nextaddr h1
      in Inr (Suc (Suc (Suc n)),
           h1\<lparr>objs := (objs h1)
                  (n := [],
                   Suc n := [(''default'', VRef n)],
                   Suc (Suc n) := [(''bounds'', rb), (''data'', VList (map VRef rd))],
                   Suc (Suc (Suc n)) :=
                     [(''input'', VRef (Suc (Suc n))), (''aggregation'', agg),
                      (''calculations'', VRef (Suc n))]),
               nextaddr := Suc (Suc (Suc (Suc n)))\<rparr>))"
  by (simp add: body_def alloc_def Let_def)

lemma body_given_calculations:
  "calc \<noteq> VNone \<Longrightarrow>
   body upd rb rd agg calc None h =
     (let h1 = add_data_filters rd h; n = nextaddr h1
      in Inr (Suc n,
           h1\<lparr>objs := (objs h1)
                  (n := [(''bounds'', rb), (''data'', VList (map VRef rd))],
                   Suc n := [(''input'', VRef n), (''aggregation'', agg),
                             (''calculations'', calc)]),
               nextaddr := Suc (Suc n)\<rparr>))"
  by (simp add: body_def alloc_def Let_def)

text \<open>
  What a call without \<open>other_args\<close> returns, in one statement: the payload and its
  \<open>input\<close> dictionary are new objects, and every object the loop has left is as the loop
  left it.
\<close>

lemma body_result:
  "\<exists>p i c h'. body upd rb rd agg calc None h = Inr (p, h')
      \<and> nextaddr (add_data_filters rd h) \<le> i \<and> nextaddr (add_data_filters rd h) \<le> p
      \<and> nextaddr (add_data_filters rd h) \<le> nextaddr h'
      \<and> objs h' p = [(''input'', VRef i), (''aggregation'', agg), (''calculations'', c)]
      \<and> objs h' i = [(''bounds'', rb), (''data'', VList (map VRef rd))]
      \<and> (calc \<noteq> VNone \<longrightarrow> c = calc)
      \<and> (calc = VNone \<longrightarrow> (\<exists>d e. c = VRef d \<and> objs h' d = [(''default'', VRef e)] \<and> objs h' e = []))
      \<and> (\<forall>x < nextaddr (add_data_filters rd h). objs h' x = objs (add_data_filters rd h) x)"
proof (cases "calc = VNone")
  case True
  let ?n = "nextaddr (add_data_filters rd h)"
  show ?thesis
    unfolding True body_default_calculations Let_def
    apply (rule exI [of _ "Suc (Suc (Suc ?n))"])
    apply (rule exI [of _ "Suc (Suc ?n)"])
    apply (rule exI [of _ "VRef (Suc ?n)"])
    apply (rule exI)
    apply (rule conjI, rule refl)
    apply simp
    done
next
  case False
  let ?n = "nextaddr (add_data_filters rd h)"
  show ?thesis
    unfolding body_given_calculations [OF False] Let_def
    apply (rule exI [of _ "Suc ?n"])
    apply (rule exI [of _ "?n"])
    apply (rule exI [of _ "calc"])
    apply (rule exI)
    apply (rule conjI, rule refl)
    using False apply simp
    done
qed

text \<open>
  Claim C1, as stated, fails when \<open>other_args\<close> is given: the merge comes after the loop
  and what it puts into the payload has not been through the loop. Below, \<open>other_args\<close> is
  \<^verbatim>\<open>{"input": {"bounds": ..., "data": [{"type": "sentinel-1-grd"}]}}\<close>; with the merge function
  modelled from the spec, the \<open>data\<close> of the returned payload's \<open>input\<close> is the list of the
  overrides, whose one element has no \<open>dataFilter\<close> key.
\<close>

theorem body_other_args_replace_input_counterexample:
  "\<not> isl (body spec_update_other_args (VRef 3) [0, 1] (VRef 4) VNone (Some 9) override_heap)
   \<and> fst (projr (body spec_update_other_args (VRef 3) [0, 1] (VRef 4) VNone (Some 9) override_heap))
       = 15
   \<and> objs (snd (projr (body spec_update_other_args (VRef 3) [0, 1] (VRef 4) VNone (Some 9) override_heap))) 15
       = [(''input'', VRef 8), (''aggregation'', VRef 4), (''calculations'', VRef 13)]
   \<and> objs (snd (projr (body spec_update_other_args (VRef 3) [0, 1] (VRef 4) VNone (Some 9) override_heap))) 8
       = [(''bounds'', VRef 3), (''data'', VList [VRef 7])]
   \<and> objs (snd (projr (body spec_update_other_args (VRef 3) [0, 1] (VRef 4) VNone (Some 9) override_heap))) 7
       = [(''type'', VStr ''sentinel-1-grd'')]
   \<and> \<not> has_key ''dataFilter''
         (objs (snd (projr (body spec_update_other_args (VRef 3) [0, 1] (VRef 4) VNone (Some 9) override_heap))) 7)"
  by (simp add: body_def truthy_def spec_update_other_args_def Let_def override_heap_def
      example_heap_def has_key_def alloc_def setitem_def)

text \<open>
  Claim C1, amended. For every list of input-data dictionaries passed as \<open>request_data\<close>,
  with \<open>other_args\<close> left out, \<open>body\<close> returns a payload whose \<open>input\<close> dictionary holds that
  list under \<open>data\<close>, and afterwards every element of the list has a \<open>dataFilter\<close> key: an
  element that lacked it has it as a new last entry, bound to an empty dictionary, and an
  element that had it is exactly as before. The elements are dictionaries that exist when
  \<open>body\<close> is called, which is what the hypothesis says.
\<close>

theorem body_every_element_has_dataFilter:
  assumes "\<forall>a\<in>set request_data. a < nextaddr h"
  shows "\<exists>p i h'. body upd request_bounds request_data aggregation' calculations None h = Inr (p, h')
      \<and> map_of (objs h' p) ''input'' = Some (VRef i)
      \<and> map_of (objs h' i) ''data'' = Some (VList (map VRef request_data))
      \<and> (\<forall>a\<in>set request_data. has_key ''dataFilter'' (objs h' a))
      \<and> (\<forall>a\<in>set request_data. has_key ''dataFilter'' (objs h a) \<longrightarrow> objs h' a = objs h a)
      \<and> (\<forall>a\<in>set request_data. \<not> has_key ''dataFilter'' (objs h a) \<longrightarrow>
            (\<exists>e. objs h' a = objs h a @ [(''dataFilter'', VRef e)] \<and> objs h' e = []))"
proof -
  let ?h1 = "add_data_filters request_data h"
  from body_result [of upd request_bounds request_data aggregation' calculations h]
  obtain p i c h' where
    res: "body upd request_bounds request_data aggregation' calculations None h = Inr (p, h')"
    and p: "objs h' p = [(''input'', VRef i), (''aggregation'', aggregation'), (''calculations'', c)]"
    and i: "objs h' i = [(''bounds'', request_bounds), (''data'', VList (map VRef request_data))]"
    and old: "\<forall>x < nextaddr ?h1. objs h' x = objs ?h1 x"
    by blast
  have grow: "nextaddr h \<le> nextaddr ?h1" by (rule nextaddr_add_data_filters)
  have had: "objs h' a = objs h a" if "a \<in> set request_data" "has_key ''dataFilter'' (objs h a)" for a
  proof -
    from that assms have "a < nextaddr h" by blast
    with that grow old show ?thesis by (simp add: add_data_filters_unchanged)
  qed
  have lacked: "\<exists>e. objs h' a = objs h a @ [(''dataFilter'', VRef e)] \<and> objs h' e = []"
    if "a \<in> set request_data" "\<not> has_key ''dataFilter'' (objs h a)" for a
  proof -
    from add_data_filters_gained [OF assms that] obtain e where
      e: "e < nextaddr ?h1" "objs ?h1 a = objs h a @ [(''dataFilter'', VRef e)]" "objs ?h1 e = []"
      by blast
    from that assms grow have "a < nextaddr ?h1" by force
    with e old show ?thesis by auto
  qed
  have every: "has_key ''dataFilter'' (objs h' a)" if "a \<in> set request_data" for a
  proof (cases "has_key ''dataFilter'' (objs h a)")
    case True
    with had [OF that] show ?thesis by simp
  next
    case False
    with lacked [OF that] show ?thesis by (auto simp: has_key_append)
  qed
  from res p i had lacked every show ?thesis by (intro exI conjI) auto
qed

theorem body_every_element_has_dataFilter_witness:
  "\<not> isl (body spec_update_other_args (VRef 3) [0, 1] (VRef 4) VNone None example_heap)
   \<and> objs (snd (projr (body spec_update_other_args (VRef 3) [0, 1] (VRef 4) VNone None example_heap))) 0
       = [(''type'', VStr ''sentinel-2-l2a''), (''dataFilter'', VRef 7)]
   \<and> objs (snd (projr (body spec_update_other_args (VRef 3) [0, 1] (VRef 4) VNone None example_heap))) 7
       = []
   \<and> objs (snd (projr (body spec_update_other_args (VRef 3) [0, 1] (VRef 4) VNone None example_heap))) 1
       = [(''type'', VStr ''landsat-ot-l1''), (''dataFilter'', VRef 2)]"
proof -
  have old: "\<forall>a\<in>set [0, 1]. a < nextaddr example_heap"
    by (simp add: example_heap_def)
  from body_every_element_has_dataFilter [OF old, of spec_update_other_args "VRef 3" "VRef 4" VNone]
  show ?thesis
    by (simp add: body_default_calculations Let_def example_heap_def has_key_def alloc_def
        setitem_def)
qed

text \<open>
  Claim C2, as the code has it. \<open>body\<close> tests \<^verbatim>\<open>calculations is None\<close>, so an empty dictionary
  is kept like any other: the call below passes the empty dictionary at address 5 and the
  payload's \<open>calculations\<close> entry is that dictionary, still empty, not \<^verbatim>\<open>{"default": {}}\<close>.
\<close>

theorem body_empty_calculations_counterexample:
  "objs example_heap 5 = []
   \<and> \<not> isl (body spec_update_other_args (VRef 3) [0, 1] (VRef 4) (VRef 5) None example_heap)
   \<and> map_of (objs (snd (projr (body spec_update_other_args (VRef 3) [0, 1] (VRef 4) (VRef 5) None example_heap)))
              (fst (projr (body spec_update_other_args (VRef 3) [0, 1] (VRef 4) (VRef 5) None example_heap))))
         ''calculations'' = Some (VRef 5)
   \<and> objs (snd (projr (body spec_update_other_args (VRef 3) [0, 1] (VRef 4) (VRef 5) None example_heap))) 5
       = []"
  by (simp add: body_given_calculations Let_def example_heap_def has_key_def alloc_def setitem_def)

text \<open>
  Claim C2, amended. With \<open>other_args\<close> left out: when \<open>calculations\<close> is \<^verbatim>\<open>None\<close> the payload's
  \<open>calculations\<close> entry is a new dictionary \<^verbatim>\<open>{"default": {}}\<close>; when it is anything else, an
  empty dictionary included, the entry is the value passed. A dictionary passed as
  \<open>calculations\<close> is not written to, unless it is also an element of \<open>request_data\<close>
  without \<open>dataFilter\<close> (the third part: those elements are the only objects \<open>body\<close>
  writes to).
\<close>

theorem body_calculations:
  "\<exists>p h'. body upd request_bounds request_data aggregation' calculations None h = Inr (p, h')
     \<and> (calculations = VNone \<longrightarrow>
          (\<exists>c e. map_of (objs h' p) ''calculations'' = Some (VRef c)
                \<and> objs h' c = [(''default'', VRef e)] \<and> objs h' e = []))
     \<and> (calculations \<noteq> VNone \<longrightarrow> map_of (objs h' p) ''calculations'' = Some calculations)
     \<and> (\<forall>a. calculations = VRef a \<and> a < nextaddr h
              \<and> (a \<notin> set request_data \<or> has_key ''dataFilter'' (objs h a))
            \<longrightarrow> objs h' a = objs h a)"
proof -
  let ?h1 = "add_data_filters request_data h"
  from body_result [of upd request_bounds request_data aggregation' calculations h]
  obtain p i c h' where
    res: "body upd request_bounds request_data aggregation' calculations None h = Inr (p, h')"
    and p: "objs h' p = [(''input'', VRef i), (''aggregation'', aggregation'), (''calculations'', c)]"
    and given: "calculations \<noteq> VNone \<longrightarrow> c = calculations"
    and default: "calculations = VNone \<longrightarrow>
       (\<exists>d e. c = VRef d \<and> objs h' d = [(''default'', VRef e)] \<and> objs h' e = [])"
    and old: "\<forall>x < nextaddr ?h1. objs h' x = objs ?h1 x"
    by blast
  have grow: "nextaddr h \<le> nextaddr ?h1" by (rule nextaddr_add_data_filters)
  have kept: "objs h' a = objs h a"
    if "a < nextaddr h" "a \<notin> set request_data \<or> has_key ''dataFilter'' (objs h a)" for a
    using that grow old by (simp add: add_data_filters_unchanged)
  from p given have "calculations \<noteq> VNone \<longrightarrow> map_of (objs h' p) ''calculations'' = Some calculations"
    by simp
  moreover from p default have "calculations = VNone \<longrightarrow>
     (\<exists>c e. map_of (objs h' p) ''calculations'' = Some (VRef c)
           \<and> objs h' c = [(''default'', VRef e)] \<and> objs h' e = [])"
    by auto
  ultimately show ?thesis using res kept by blast
qed

theorem body_calculations_witness:
  "objs example_heap 6 = [(''default'', VRef 5), (''ndvi'', VRef 5)]
   \<and> map_of (objs (snd (projr (body spec_update_other_args (VRef 3) [0, 1] (VRef 4) (VRef 6) None example_heap)))
              (fst (projr (body spec_update_other_args (VRef 3) [0, 1] (VRef 4) (VRef 6) None example_heap))))
         ''calculations'' = Some (VRef 6)
   \<and> objs (snd (projr (body spec_update_other_args (VRef 3) [0, 1] (VRef 4) (VRef 6) None example_heap))) 6
       = [(''default'', VRef 5), (''ndvi'', VRef 5)]
   \<and> map_of (objs (snd (projr (body spec_update_other_args (VRef 3) [0, 1] (VRef 4) VNone None example_heap)))
              (fst (projr (body spec_update_other_args (VRef 3) [0, 1] (VRef 4) VNone None example_heap))))
         ''calculations'' = Some (VRef 9)
   \<and> objs (snd (projr (body spec_update_other_args (VRef 3) [0, 1] (VRef 4) VNone None example_heap))) 9
       = [(''default'', VRef 8)]
   \<and> objs (snd (projr (body spec_update_other_args (VRef 3) [0, 1] (VRef 4) VNone None example_heap))) 8
       = []"
  using body_calculations [of spec_update_other_args "VRef 3" "[0, 1]" "VRef 4" "VRef 6" example_heap]
    body_calculations [of spec_update_other_args "VRef 3" "[0, 1]" "VRef 4" VNone example_heap]
  by (simp add: body_given_calculations body_default_calculations Let_def example_heap_def
      has_key_def alloc_def setitem_def)

text \<open>
  Claim C5. With \<open>other_args\<close> left out, \<open>body\<close> returns a new dictionary whose keys are
  exactly \<open>input\<close>, \<open>aggregation\<close> and \<open>calculations\<close>, in this order; \<open>input\<close> is a new
  dictionary with exactly the entries \<open>bounds\<close>, the \<open>request_bounds\<close> passed, and \<open>data\<close>,
  the \<open>request_data\<close> passed.
\<close>

theorem body_top_level_keys:
  "\<exists>p i h'. body upd request_bounds request_data aggregation' calculations None h = Inr (p, h')
     \<and> map fst (objs h' p) = [''input'', ''aggregation'', ''calculations'']
     \<and> map_of (objs h' p) ''input'' = Some (VRef i)
     \<and> map_of (objs h' p) ''aggregation'' = Some aggregation'
     \<and> objs h' i = [(''bounds'', request_bounds), (''data'', VList (map VRef request_data))]"
proof -
  from body_result [of upd request_bounds request_data aggregation' calculations h]
  obtain p i c h' where
    "body upd request_bounds request_data aggregation' calculations None h = Inr (p, h')"
    "objs h' p = [(''input'', VRef i), (''aggregation'', aggregation'), (''calculations'', c)]"
    "objs h' i = [(''bounds'', request_bounds), (''data'', VList (map VRef request_data))]"
    by blast
  then show ?thesis by (intro exI [of _ p] exI [of _ i] exI [of _ h']) simp
qed

text \<open>
  Claim C7, as stated, fails when the caller passes as another argument a dictionary that
  is also an element of \<open>request_data\<close> without \<open>dataFilter\<close>: below, the dictionary at
  address 0 is both \<open>request_bounds\<close> and the only element of \<open>request_data\<close>, and the call
  writes the key into it.
\<close>

theorem body_writes_to_shared_argument_counterexample:
  "\<not> isl (body spec_update_other_args (VRef 0) [0] (VRef 4) (VRef 6) None example_heap)
   \<and> objs example_heap 0 = [(''type'', VStr ''sentinel-2-l2a'')]
   \<and> objs (snd (projr (body spec_update_other_args (VRef 0) [0] (VRef 4) (VRef 6) None example_heap))) 0
       = [(''type'', VStr ''sentinel-2-l2a''), (''dataFilter'', VRef 7)]"
  by (simp add: body_given_calculations Let_def example_heap_def has_key_def alloc_def setitem_def)

text \<open>
  Claim C7, amended. With \<open>other_args\<close> left out, \<open>body\<close> writes to the elements of
  \<open>request_data\<close> that lack \<open>dataFilter\<close> and to nothing else that existed before the call:
  such an element keeps its entries and gets \<open>dataFilter\<close> as a new last entry, bound to a
  new dictionary that is empty when \<open>body\<close> returns; every other existing dictionary, among
  them the elements that had the key, has the entries it had. So \<open>request_bounds\<close>,
  \<open>aggregation\<close> and \<open>calculations\<close> are written to only when one of them is itself such an
  element.
\<close>

theorem body_frame:
  assumes "\<forall>a\<in>set request_data. a < nextaddr h"
  shows "\<exists>p h'. body upd request_bounds request_data aggregation' calculations None h = Inr (p, h')
      \<and> (\<forall>x<nextaddr h.
            (x \<in> set request_data \<and> \<not> has_key ''dataFilter'' (objs h x) \<longrightarrow>
               (\<exists>e. nextaddr h \<le> e \<and> objs h' x = objs h x @ [(''dataFilter'', VRef e)]
                   \<and> objs h' e = []))
          \<and> (\<not> (x \<in> set request_data \<and> \<not> has_key ''dataFilter'' (objs h x)) \<longrightarrow>
               objs h' x = objs h x))"
proof -
  let ?h1 = "add_data_filters request_data h"
  from body_result [of upd request_bounds request_data aggregation' calculations h]
  obtain p h' where
    res: "body upd request_bounds request_data aggregation' calculations None h = Inr (p, h')"
    and old: "\<forall>x < nextaddr ?h1. objs h' x = objs ?h1 x"
    by blast
  have grow: "nextaddr h \<le> nextaddr ?h1" by (rule nextaddr_add_data_filters)
  have kept: "objs h' x = objs h x"
    if "x < nextaddr h" "\<not> (x \<in> set request_data \<and> \<not> has_key ''dataFilter'' (objs h x))" for x
    using that grow old by (simp add: add_data_filters_unchanged)
  have gained: "\<exists>e. nextaddr h \<le> e \<and> objs h' x = objs h x @ [(''dataFilter'', VRef e)] \<and> objs h' e = []"
    if "x < nextaddr h" "x \<in> set request_data" "\<not> has_key ''dataFilter'' (objs h x)" for x
  proof -
    from add_data_filters_gained [OF assms that(2,3)] obtain e where
      e: "nextaddr h \<le> e" "e < nextaddr ?h1"
        "objs ?h1 x = objs h x @ [(''dataFilter'', VRef e)]" "objs ?h1 e = []"
      by blast
    from that(1) grow have "x < nextaddr ?h1" by simp
    with e old show ?thesis by auto
  qed
  from res kept gained show ?thesis by blast
qed

theorem body_frame_witness:
  "objs (snd (projr (body spec_update_other_args (VRef 3) [0, 1] (VRef 4) (VRef 6) None example_heap))) 0
       = [(''type'', VStr ''sentinel-2-l2a''), (''dataFilter'', VRef 7)]
   \<and> objs (snd (projr (body spec_update_other_args (VRef 3) [0, 1] (VRef 4) (VRef 6) None example_heap))) 7
       = []
   \<and> objs (snd (projr (body spec_update_other_args (VRef 3) [0, 1] (VRef 4) (VRef 6) None example_heap))) 1
       = objs example_heap 1
   \<and> objs (snd (projr (body spec_update_other_args (VRef 3) [0, 1] (VRef 4) (VRef 6) None example_heap))) 3
       = objs example_heap 3
   \<and> objs (snd (projr (body spec_update_other_args (VRef 3) [0, 1] (VRef 4) (VRef 6) None example_heap))) 4
       = objs example_heap 4
   \<and> objs (snd (projr (body spec_update_other_args (VRef 3) [0, 1] (VRef 4) (VRef 6) None example_heap))) 6
       = objs example_heap 6"
proof -
  have old: "\<forall>a\<in>set [0, 1]. a < nextaddr example_heap"
    by (simp add: example_heap_def)
  from body_frame [OF old, of spec_update_other_args "VRef 3" "VRef 4" "VRef 6"]
  show ?thesis
    by (simp add: body_given_calculations Let_def example_heap_def has_key_def alloc_def
        setitem_def)
qed

text \<open>
  Claim C8. When every element of \<open>request_data\<close> has a \<open>dataFilter\<close> key already, the loop
  of \<open>body\<close> writes nothing and \<open>body\<close> (without \<open>other_args\<close>) returns with every element as
  it was. For any \<open>request_data\<close>, running the loop on the store it has left changes
  nothing, and so a second call of \<open>body\<close> on the store the first has left returns with
  every element as the first call left it. The elements are dictionaries that exist when
  \<open>body\<close> is called, which is what the hypothesis says.
\<close>

theorem body_dataFilter_idempotent:
  assumes "\<forall>a\<in>set request_data. a < nextaddr h"
  shows "((\<forall>a\<in>set request_data. has_key ''dataFilter'' (objs h a)) \<longrightarrow>
            add_data_filters request_data h = h
          \<and> (\<exists>p h'. body upd request_bounds request_data aggregation' calculations None h = Inr (p, h')
                \<and> (\<forall>a\<in>set request_data. objs h' a = objs h a)))
       \<and> add_data_filters request_data (add_data_filters request_data h)
           = add_data_filters request_data h
       \<and> (\<exists>p1 h1 p2 h2.
             body upd request_bounds request_data aggregation' calculations None h = Inr (p1, h1)
           \<and> body upd request_bounds request_data aggregation' calculations None h1 = Inr (p2, h2)
           \<and> (\<forall>a\<in>set request_data. objs h2 a = objs h1 a))"
proof (intro conjI impI)
  let ?h1 = "add_data_filters request_data h"
  have grow: "nextaddr h \<le> nextaddr ?h1" by (rule nextaddr_add_data_filters)
  have all: "\<forall>a\<in>set request_data. has_key ''dataFilter'' (objs ?h1 a)"
    using add_data_filters_has_key [OF assms] by blast
  \<comment> \<open>a call of \<open>body\<close> on a store where every element exists and has the key\<close>
  have idle_call: "\<exists>p k'. body upd request_bounds request_data aggregation' calculations None k = Inr (p, k')
      \<and> (\<forall>a\<in>set request_data. objs k' a = objs k a)"
    if ex: "\<forall>a\<in>set request_data. a < nextaddr k"
      and keys: "\<forall>a\<in>set request_data. has_key ''dataFilter'' (objs k a)" for k
  proof -
    from body_result [of upd request_bounds request_data aggregation' calculations k]
    obtain p k' where
      res: "body upd request_bounds request_data aggregation' calculations None k = Inr (p, k')"
      and old: "\<forall>x < nextaddr (add_data_filters request_data k).
                   objs k' x = objs (add_data_filters request_data k) x"
      by blast
    from keys have "add_data_filters request_data k = k" by (rule add_data_filters_idle)
    with old ex have "\<forall>a\<in>set request_data. objs k' a = objs k a" by auto
    with res show ?thesis by blast
  qed
  show "add_data_filters request_data ?h1 = ?h1"
    using all by (rule add_data_filters_idle)
  {
    assume keys: "\<forall>a\<in>set request_data. has_key ''dataFilter'' (objs h a)"
    then show "add_data_filters request_data h = h" by (rule add_data_filters_idle)
    from idle_call [OF assms keys]
    show "\<exists>p h'. body upd request_bounds request_data aggregation' calculations None h = Inr (p, h')
        \<and> (\<forall>a\<in>set request_data. objs h' a = objs h a)" .
  }
  show "\<exists>p1 h1 p2 h2.
        body upd request_bounds request_data aggregation' calculations None h = Inr (p1, h1)
      \<and> body upd request_bounds request_data aggregation' calculations None h1 = Inr (p2, h2)
      \<and> (\<forall>a\<in>set request_data. objs h2 a = objs h1 a)"
  proof -
    from body_result [of upd request_bounds request_data aggregation' calculations h]
    obtain p1 h1 where
      res1: "body upd request_bounds request_data aggregation' calculations None h = Inr (p1, h1)"
      and top: "nextaddr ?h1 \<le> nextaddr h1"
      and old: "\<forall>x < nextaddr ?h1. objs h1 x = objs ?h1 x"
      by blast
    have ex1: "\<forall>a\<in>set request_data. a < nextaddr h1"
      using assms grow top by force
    have keys1: "\<forall>a\<in>set request_data. has_key ''dataFilter'' (objs h1 a)"
      using all old assms grow by force
    from idle_call [OF ex1 keys1] res1 show ?thesis by blast
  qed
qed

theorem body_dataFilter_idempotent_witness:
  "add_data_filters [1] example_heap = example_heap
   \<and> objs (snd (projr (body spec_update_other_args (VRef 3) [1] (VRef 4) (VRef 6) None example_heap))) 1
       = objs example_heap 1
   \<and> add_data_filters [0, 1] (add_data_filters [0, 1] example_heap)
       = add_data_filters [0, 1] example_heap
   \<and> objs (add_data_filters [0, 1] example_heap) 0
       = [(''type'', VStr ''sentinel-2-l2a''), (''dataFilter'', VRef 7)]"
proof -
  have old1: "\<forall>a\<in>set [1]. a < nextaddr example_heap"
    and old2: "\<forall>a\<in>set [0, 1]. a < nextaddr example_heap"
    by (simp_all add: example_heap_def)
  have keys: "\<forall>a\<in>set [1]. has_key ''dataFilter'' (objs example_heap a)"
    by (simp add: example_heap_def has_key_def)
  from body_dataFilter_idempotent [OF old1, of spec_update_other_args "VRef 3" "VRef 4" "VRef 6"] keys
  have "add_data_filters [1] example_heap = example_heap"
    and "objs (snd (projr (body spec_update_other_args (VRef 3) [1] (VRef 4) (VRef 6) None example_heap))) 1
       = objs example_heap 1"
    by auto
  moreover from body_dataFilter_idempotent [OF old2, of spec_update_other_args "VRef 3" "VRef 4" "VRef 6"]
  have "add_data_filters [0, 1] (add_data_filters [0, 1] example_heap)
       = add_data_filters [0, 1] example_heap"
    by blast
  moreover have "objs (add_data_filters [0, 1] example_heap) 0
       = [(''type'', VStr ''sentinel-2-l2a''), (''dataFilter'', VRef 7)]"
    by (simp add: example_heap_def has_key_def alloc_def setitem_def)
  ultimately show ?thesis by blast
qed

section \<open>Properties of \<^verbatim>\<open>aggregation\<close>\<close>

text \<open>
  Claim C3, as stated, fails when \<open>other_args\<close> is given: the merge comes after the four
  keys are set. Below, \<open>size\<close> is \<open>(512, 512)\<close>, there is no \<open>resolution\<close> and \<open>other_args\<close> is
  \<^verbatim>\<open>{"width": 7, "resx": 3}\<close>; with the merge function modelled from the spec, the returned
  payload has \<open>width\<close> 7 and a \<open>resx\<close> key.
\<close>

theorem aggregation_other_args_override_size_counterexample:
  "\<not> isl (aggregation spec_update_other_args spec_parse_time_interval spec_serialize_time
           (VStr ''return [B04]'') (Some (''2020-01-01'', ''2020-02-01'')) (VStr ''P1D'')
           (Some (VInt 512, VInt 512)) None (Some 10) override_heap)
   \<and> fst (projr (aggregation spec_update_other_args spec_parse_time_interval spec_serialize_time
           (VStr ''return [B04]'') (Some (''2020-01-01'', ''2020-02-01'')) (VStr ''P1D'')
           (Some (VInt 512, VInt 512)) None (Some 10) override_heap)) = 13
   \<and> objs (snd (projr (aggregation spec_update_other_args spec_parse_time_interval spec_serialize_time
           (VStr ''return [B04]'') (Some (''2020-01-01'', ''2020-02-01'')) (VStr ''P1D'')
           (Some (VInt 512, VInt 512)) None (Some 10) override_heap))) 13
     = [(''evalscript'', VStr ''return [B04]''), (''timeRange'', VRef 11),
        (''aggregationInterval'', VRef 12), (''width'', VInt 7), (''height'', VInt 512),
        (''resx'', VInt 3)]"
  by (simp add: aggregation_def truthy_def spec_update_other_args_def spec_parse_time_interval_def
      spec_serialize_time_def Let_def override_heap_def example_heap_def alloc_def setitem_def)

text \<open>
  Claim C3, amended. When the time interval is parsed and serialized, a call of
  \<open>aggregation\<close> with \<open>other_args\<close> left out returns a new dictionary which, given a \<open>size\<close>
  and no \<open>resolution\<close>, has \<open>width\<close> and \<open>height\<close> bound to the two parts of \<open>size\<close> and no
  \<open>resx\<close> or \<open>resy\<close> key; given a \<open>resolution\<close> and no \<open>size\<close>, has \<open>resx\<close> and \<open>resy\<close> bound to
  the two parts of \<open>resolution\<close> and no \<open>width\<close> or \<open>height\<close> key; and given neither has none of
  the four keys. The claim's \<open>(512, 512)\<close> and \<open>(10, 10)\<close> are instances.
\<close>

theorem aggregation_size_and_resolution:
  assumes "parse_time_interval time_interval True = Inr interval"
    and "serialize_time interval True = Inr (start_time, end_time)"
  shows "(\<exists>p h'. aggregation upd parse_time_interval serialize_time evalscript time_interval
                    aggregation_interval (Some (width, height)) None None h = Inr (p, h')
            \<and> map_of (objs h' p) ''width'' = Some width
            \<and> map_of (objs h' p) ''height'' = Some height
            \<and> \<not> has_key ''resx'' (objs h' p) \<and> \<not> has_key ''resy'' (objs h' p))
       \<and> (\<exists>p h'. aggregation upd parse_time_interval serialize_time evalscript time_interval
                    aggregation_interval None (Some (resx, resy)) None h = Inr (p, h')
            \<and> map_of (objs h' p) ''resx'' = Some resx
            \<and> map_of (objs h' p) ''resy'' = Some resy
            \<and> \<not> has_key ''width'' (objs h' p) \<and> \<not> has_key ''height'' (objs h' p))
       \<and> (\<exists>p h'. aggregation upd parse_time_interval serialize_time evalscript time_interval
                    aggregation_interval None None None h = Inr (p, h')
            \<and> \<not> has_key ''width'' (objs h' p) \<and> \<not> has_key ''height'' (objs h' p)
            \<and> \<not> has_key ''resx'' (objs h' p) \<and> \<not> has_key ''resy'' (objs h' p))"
  using assms by (simp add: aggregation_def alloc_def setitem_def has_key_def Let_def)

theorem aggregation_size_and_resolution_witness:
  "objs (snd (projr (aggregation spec_update_other_args spec_parse_time_interval spec_serialize_time
           (VStr ''return [B04]'') (Some (''2020-01-01'', ''2020-02-01'')) (VStr ''P1D'')
           (Some (VInt 512, VInt 512)) None None example_heap))) 9
     = [(''evalscript'', VStr ''return [B04]''), (''timeRange'', VRef 7),
        (''aggregationInterval'', VRef 8), (''width'', VInt 512), (''height'', VInt 512)]
   \<and> objs (snd (projr (aggregation spec_update_other_args spec_parse_time_interval spec_serialize_time
           (VStr ''return [B04]'') (Some (''2020-01-01'', ''2020-02-01'')) (VStr ''P1D'')
           None (Some (VInt 10, VInt 10)) None example_heap))) 9
     = [(''evalscript'', VStr ''return [B04]''), (''timeRange'', VRef 7),
        (''aggregationInterval'', VRef 8), (''resx'', VInt 10), (''resy'', VInt 10)]"
proof -
  have parsed: "spec_parse_time_interval (Some (''2020-01-01'', ''2020-02-01'')) True
      = Inr (Some (''2020-01-01'', ''2020-02-01''))"
    by (simp add: spec_parse_time_interval_def)
  have serialized: "spec_serialize_time (Some (''2020-01-01'', ''2020-02-01'')) True
      = Inr (VStr ''2020-01-01T00:00:00Z'', VStr ''2020-02-01T00:00:00Z'')"
    by (simp add: spec_serialize_time_def)
  from aggregation_size_and_resolution
      [where parse_time_interval = spec_parse_time_interval
         and serialize_time = spec_serialize_time
         and upd = spec_update_other_args and evalscript = "VStr ''return [B04]''"
         and aggregation_interval = "VStr ''P1D''" and h = example_heap
         and width = "VInt 512" and height = "VInt 512" and resx = "VInt 10" and resy = "VInt 10",
       OF parsed serialized]
  show ?thesis
    by (simp add: aggregation_def parsed serialized alloc_def setitem_def Let_def example_heap_def)
qed

text \<open>
  Claim C6. When the time interval is parsed and serialized, a call of \<open>aggregation\<close>
  without \<open>size\<close>, \<open>resolution\<close> and \<open>other_args\<close> returns a new dictionary with exactly the
  entries \<open>evalscript\<close>, the evalscript passed; \<open>timeRange\<close>, a new dictionary with exactly
  \<open>from\<close> and \<open>to\<close>, bound to the serialized start and end; and \<open>aggregationInterval\<close>, a new
  dictionary with the one entry \<open>of\<close>, bound to the aggregation interval passed.
\<close>

theorem aggregation_payload:
  assumes "parse_time_interval time_interval True = Inr interval"
    and "serialize_time interval True = Inr (start_time, end_time)"
  shows "\<exists>p t i h'. aggregation upd parse_time_interval serialize_time evalscript time_interval
                    aggregation_interval None None None h = Inr (p, h')
            \<and> objs h' p = [(''evalscript'', evalscript), (''timeRange'', VRef t),
                            (''aggregationInterval'', VRef i)]
            \<and> objs h' t = [(''from'', start_time), (''to'', end_time)]
            \<and> objs h' i = [(''of'', aggregation_interval)]"
  using assms by (simp add: aggregation_def alloc_def Let_def)

theorem aggregation_payload_witness:
  "\<not> isl (aggregation spec_update_other_args spec_parse_time_interval spec_serialize_time
           (VStr ''return [B04]'') (Some (''2020-01-01'', ''2020-02-01'')) (VStr ''P1D'')
           None None None example_heap)
   \<and> objs (snd (projr (aggregation spec_update_other_args spec_parse_time_interval spec_serialize_time
           (VStr ''return [B04]'') (Some (''2020-01-01'', ''2020-02-01'')) (VStr ''P1D'')
           None None None example_heap))) 9
     = [(''evalscript'', VStr ''return [B04]''), (''timeRange'', VRef 7),
        (''aggregationInterval'', VRef 8)]
   \<and> objs (snd (projr (aggregation spec_update_other_args spec_parse_time_interval spec_serialize_time
           (VStr ''return [B04]'') (Some (''2020-01-01'', ''2020-02-01'')) (VStr ''P1D'')
           None None None example_heap))) 7
     = [(''from'', VStr ''2020-01-01T00:00:00Z''), (''to'', VStr ''2020-02-01T00:00:00Z'')]
   \<and> objs (snd (projr (aggregation spec_update_other_args spec_parse_time_interval spec_serialize_time
           (VStr ''return [B04]'') (Some (''2020-01-01'', ''2020-02-01'')) (VStr ''P1D'')
           None None None example_heap))) 8
     = [(''of'', VStr ''P1D'')]"
proof -
  have parsed: "spec_parse_time_interval (Some (''2020-01-01'', ''2020-02-01'')) True
      = Inr (Some (''2020-01-01'', ''2020-02-01''))"
    by (simp add: spec_parse_time_interval_def)
  have serialized: "spec_serialize_time (Some (''2020-01-01'', ''2020-02-01'')) True
      = Inr (VStr ''2020-01-01T00:00:00Z'', VStr ''2020-02-01T00:00:00Z'')"
    by (simp add: spec_serialize_time_def)
  from aggregation_payload
      [where parse_time_interval = spec_parse_time_interval
         and serialize_time = spec_serialize_time
         and upd = spec_update_other_args and evalscript = "VStr ''return [B04]''"
         and aggregation_interval = "VStr ''P1D''" and h = example_heap,
       OF parsed serialized]
  show ?thesis
    by (simp add: aggregation_def parsed serialized alloc_def Let_def example_heap_def)
qed



section \<open>An empty \<open>other_args\<close>\<close>

text \<open>
  Claim C10, as stated, fails for \<open>body\<close> when the empty dictionary passed as \<open>other_args\<close>
  is also an element of \<open>request_data\<close>: the loop has put \<open>dataFilter\<close> into it by the time
  \<^verbatim>\<open>if other_args:\<close> is evaluated, and the merge is called. Below, the empty dictionary at
  address 5 is both. A merge function that does nothing but raise shows the call: its
  error is the result of \<open>body\<close>. With the merge function modelled from the spec the payload
  has a fourth key, which it has not when \<open>other_args\<close> is \<^verbatim>\<open>None\<close>.
\<close>

theorem body_empty_other_args_shared_counterexample:
  "objs example_heap 5 = []
   \<and> truthy (Some 5) (add_data_filters [5] example_heap)
   \<and> body (\<lambda>target overrides k. Inl ''merge called'') (VRef 3) [5] (VRef 4) (VRef 6) (Some 5)
         example_heap = Inl ''merge called''
   \<and> objs (snd (projr (body spec_update_other_args (VRef 3) [5] (VRef 4) (VRef 6) (Some 5) example_heap))) 9
       = [(''input'', VRef 8), (''aggregation'', VRef 4), (''calculations'', VRef 6),
          (''dataFilter'', VRef 7)]
   \<and> objs (snd (projr (body spec_update_other_args (VRef 3) [5] (VRef 4) (VRef 6) None example_heap))) 9
       = [(''input'', VRef 8), (''aggregation'', VRef 4), (''calculations'', VRef 6)]
   \<and> body spec_update_other_args (VRef 3) [5] (VRef 4) (VRef 6) (Some 5) example_heap
       \<noteq> body spec_update_other_args (VRef 3) [5] (VRef 4) (VRef 6) None example_heap"
proof -
  have some: "objs (snd (projr (body spec_update_other_args (VRef 3) [5] (VRef 4) (VRef 6) (Some 5) example_heap))) 9
       = [(''input'', VRef 8), (''aggregation'', VRef 4), (''calculations'', VRef 6),
          (''dataFilter'', VRef 7)]"
    by (simp add: body_def truthy_def spec_update_other_args_def Let_def example_heap_def
        has_key_def alloc_def setitem_def)
  have none: "objs (snd (projr (body spec_update_other_args (VRef 3) [5] (VRef 4) (VRef 6) None example_heap))) 9
       = [(''input'', VRef 8), (''aggregation'', VRef 4), (''calculations'', VRef 6)]"
    by (simp add: body_def Let_def example_heap_def has_key_def alloc_def setitem_def)
  have "objs example_heap 5 = []"
    by (simp add: example_heap_def)
  moreover have "truthy (Some 5) (add_data_filters [5] example_heap)"
    by (simp add: truthy_def example_heap_def has_key_def alloc_def setitem_def)
  moreover have "body (\<lambda>target overrides k. Inl ''merge called'') (VRef 3) [5] (VRef 4) (VRef 6)
         (Some 5) example_heap = Inl ''merge called''"
    by (simp add: body_def truthy_def Let_def example_heap_def has_key_def alloc_def setitem_def)
  moreover from some none
  have "body spec_update_other_args (VRef 3) [5] (VRef 4) (VRef 6) (Some 5) example_heap
       \<noteq> body spec_update_other_args (VRef 3) [5] (VRef 4) (VRef 6) None example_heap"
    by auto
  ultimately show ?thesis using some none by blast
qed

text \<open>
  Claim C10, amended. For \<open>aggregation\<close>, an \<open>other_args\<close> that is an empty dictionary gives
  the result that \<^verbatim>\<open>None\<close> gives: no merge is done. For \<open>body\<close> the same holds when the empty
  dictionary is not also an element of \<open>request_data\<close>. The dictionary exists when the
  function is called, which is what \<open>a < nextaddr h\<close> says.
\<close>

theorem empty_other_args_like_None:
  "(objs h a = [] \<and> a < nextaddr h \<longrightarrow>
      aggregation upd parse_time_interval serialize_time evalscript time_interval
        aggregation_interval size' resolution (Some a) h
      = aggregation upd parse_time_interval serialize_time evalscript time_interval
        aggregation_interval size' resolution None h)
   \<and> (objs h a = [] \<and> a < nextaddr h \<and> a \<notin> set request_data \<longrightarrow>
      body upd request_bounds request_data aggregation' calculations (Some a) h
      = body upd request_bounds request_data aggregation' calculations None h)"
proof (intro conjI impI)
  assume "objs h a = [] \<and> a < nextaddr h"
  then show "aggregation upd parse_time_interval serialize_time evalscript time_interval
        aggregation_interval size' resolution (Some a) h
      = aggregation upd parse_time_interval serialize_time evalscript time_interval
        aggregation_interval size' resolution None h"
    by (simp add: aggregation_def truthy_def alloc_def setitem_def Let_def
        split: sum.split option.split prod.split)
next
  let ?h1 = "add_data_filters request_data h"
  assume a: "objs h a = [] \<and> a < nextaddr h \<and> a \<notin> set request_data"
  then have "objs ?h1 a = []"
    by (simp add: add_data_filters_unchanged)
  moreover from a nextaddr_add_data_filters [of h request_data] have "a < nextaddr ?h1"
    by simp
  ultimately show "body upd request_bounds request_data aggregation' calculations (Some a) h
      = body upd request_bounds request_data aggregation' calculations None h"
    by (simp add: body_def truthy_def alloc_def Let_def)
qed

theorem empty_other_args_like_None_witness:
  "objs example_heap 5 = []
   \<and> body spec_update_other_args (VRef 3) [0, 1] (VRef 4) (VRef 6) (Some 5) example_heap
       = body spec_update_other_args (VRef 3) [0, 1] (VRef 4) (VRef 6) None example_heap
   \<and> aggregation spec_update_other_args spec_parse_time_interval spec_serialize_time
       (VStr ''return [B04]'') (Some (''2020-01-01'', ''2020-02-01'')) (VStr ''P1D'')
       (Some (VInt 512, VInt 512)) None (Some 5) example_heap
     = aggregation spec_update_other_args spec_parse_time_interval spec_serialize_time
       (VStr ''return [B04]'') (Some (''2020-01-01'', ''2020-02-01'')) (VStr ''P1D'')
       (Some (VInt 512, VInt 512)) None None example_heap"
proof -
  have empty: "objs example_heap 5 = []" and old: "5 < nextaddr example_heap"
    by (simp_all add: example_heap_def)
  have other: "5 \<notin> set [0, 1::nat]"
    by simp
  from empty_other_args_like_None
      [where h = example_heap and a = 5 and request_data = "[0, 1]"
         and upd = spec_update_other_args and request_bounds = "VRef 3"
         and aggregation' = "VRef 4" and calculations = "VRef 6"
         and parse_time_interval = spec_parse_time_interval
         and serialize_time = spec_serialize_time and evalscript = "VStr ''return [B04]''"
         and time_interval = "Some (''2020-01-01'', ''2020-02-01'')"
         and aggregation_interval = "VStr ''P1D''"
         and size' = "Some (VInt 512, VInt 512)" and resolution = None]
    empty old other
  show ?thesis by blast
qed

section \<open>Properties of the constructor\<close>

lemma map_of_appended: "\<not> has_key k d \<Longrightarrow> map_of (d @ [(k, v)]) k = Some v"
  by (induction d) (auto simp: has_key_def)

text \<open>
  Claim C4. The constructor is called with a \<open>bbox\<close>, an \<open>input_data\<close> list whose one entry
  has no \<open>dataFilter\<close>, an aggregation dictionary, and \<open>calculations\<close> left at \<^verbatim>\<open>None\<close>. The
  two functions of the base class are taken as they are described: \<open>bounds\<close> returns the
  bounds and \<open>super_init\<close> returns the object it is given, and neither writes to a
  dictionary that existed before it was called. Then the constructor returns an object
  whose MIME type is \<open>JSON\<close> and whose payload has under \<open>input\<close> a dictionary whose \<open>data\<close>
  is the one-entry list; that entry has \<open>dataFilter\<close> bound to an empty dictionary, and the
  payload has \<open>calculations\<close> bound to \<^verbatim>\<open>{"default": {}}\<close>.
\<close>

theorem init_stores_payload_and_mime_type:
  assumes bounds_ok: "bounds (Some bbox) geometry h = Inr (request_bounds, hb)"
    and bounds_grows: "nextaddr h \<le> nextaddr hb"
    and bounds_frame: "\<forall>x<nextaddr h. objs hb x = objs h x"
    and entry_old: "a < nextaddr h"
    and entry_lacks: "\<not> has_key ''dataFilter'' (objs h a)"
    and super_ok: "\<forall>self k. \<exists>k'. super_init kwargs self k = Inr (self, k')
                      \<and> (\<forall>x<nextaddr k. objs k' x = objs k x)"
  shows "\<exists>self p i e c d hf.
           init upd bounds super_init aggregation' [a] (Some bbox) geometry VNone kwargs h
             = Inr (self, hf)
         \<and> mime_type self = JSON \<and> payload self = VRef p
         \<and> map_of (objs hf p) ''input'' = Some (VRef i)
         \<and> map_of (objs hf i) ''data'' = Some (VList [VRef a])
         \<and> map_of (objs hf a) ''dataFilter'' = Some (VRef e) \<and> objs hf e = []
         \<and> map_of (objs hf p) ''calculations'' = Some (VRef c)
         \<and> objs hf c = [(''default'', VRef d)] \<and> objs hf d = []"
proof -
  from entry_old bounds_grows have a_b: "a < nextaddr hb" by simp
  from entry_old entry_lacks bounds_frame have lacks_b: "\<not> has_key ''dataFilter'' (objs hb a)"
    by simp
  define h1 where "h1 = add_data_filters [a] hb"
  define n where "n = nextaddr h1"
  have h1: "h1 = filled a hb"
    unfolding h1_def add_data_filters_absent [OF lacks_b] by simp
  have n: "n = Suc (nextaddr hb)"
    by (simp add: n_def h1 nextaddr_filled)
  have entry1: "objs h1 a = objs hb a @ [(''dataFilter'', VRef (nextaddr hb))]"
    unfolding h1 using a_b lacks_b by (rule objs_filled_self)
  have filter1: "objs h1 (nextaddr hb) = []"
    unfolding h1 using a_b by (rule objs_filled_new)
  define h2 where "h2 =
    h1\<lparr>objs := (objs h1)
           (n := [],
            Suc n := [(''default'', VRef n)],
            Suc (Suc n) := [(''bounds'', request_bounds), (''data'', VList (map VRef [a]))],
            Suc (Suc (Suc n)) :=
              [(''input'', VRef (Suc (Suc n))), (''aggregation'', aggregation'),
               (''calculations'', VRef (Suc n))]),
        nextaddr := Suc (Suc (Suc (Suc n)))\<rparr>"
  have called: "body upd request_bounds [a] aggregation' VNone None hb = Inr (Suc (Suc (Suc n)), h2)"
    by (simp only: body_default_calculations Let_def h1_def [symmetric] n_def [symmetric] h2_def)
  let ?self = "\<lparr>mime_type = JSON, payload = VRef (Suc (Suc (Suc n)))\<rparr>"
  from super_ok obtain hf where
    stored: "super_init kwargs ?self h2 = Inr (?self, hf)"
    and kept: "\<forall>x<nextaddr h2. objs hf x = objs h2 x"
    by blast
  have result: "init upd bounds super_init aggregation' [a] (Some bbox) geometry VNone kwargs h
      = Inr (?self, hf)"
    by (simp add: init_def bounds_ok called stored)
  have top: "nextaddr h2 = Suc (Suc (Suc (Suc n)))"
    by (simp add: h2_def)
  have p: "objs hf (Suc (Suc (Suc n))) =
      [(''input'', VRef (Suc (Suc n))), (''aggregation'', aggregation'),
       (''calculations'', VRef (Suc n))]"
    using kept by (simp add: top h2_def)
  have i: "objs hf (Suc (Suc n)) = [(''bounds'', request_bounds), (''data'', VList [VRef a])]"
    using kept by (simp add: top h2_def)
  have c: "objs hf (Suc n) = [(''default'', VRef n)]"
    using kept by (simp add: top h2_def)
  have d: "objs hf n = []"
    using kept by (simp add: top h2_def)
  have e: "objs hf (nextaddr hb) = []"
    using kept filter1 by (simp add: top h2_def n)
  have entry_hf: "objs hf a = objs hb a @ [(''dataFilter'', VRef (nextaddr hb))]"
    using kept entry1 a_b by (simp add: top h2_def n)
  have entry: "map_of (objs hf a) ''dataFilter'' = Some (VRef (nextaddr hb))"
    unfolding entry_hf using lacks_b by (rule map_of_appended)
  show ?thesis
    apply (rule exI [of _ ?self])
    apply (rule exI [of _ "Suc (Suc (Suc n))"])
    apply (rule exI [of _ "Suc (Suc n)"])
    apply (rule exI [of _ "nextaddr hb"])
    apply (rule exI [of _ "Suc n"])
    apply (rule exI [of _ n])
    apply (rule exI [of _ hf])
    apply (simp add: result p i c d e entry)
    done
qed

theorem init_stores_payload_and_mime_type_witness:
  "\<not> isl (init spec_update_other_args spec_bounds spec_super_init (VRef 4) [0]
            (Some (VList [VInt 13, VInt 45, VInt 14, VInt 46])) None VNone () example_heap)
   \<and> fst (projr (init spec_update_other_args spec_bounds spec_super_init (VRef 4) [0]
            (Some (VList [VInt 13, VInt 45, VInt 14, VInt 46])) None VNone () example_heap))
       = \<lparr>mime_type = JSON, payload = VRef 12\<rparr>
   \<and> objs (snd (projr (init spec_update_other_args spec_bounds spec_super_init (VRef 4) [0]
            (Some (VList [VInt 13, VInt 45, VInt 14, VInt 46])) None VNone () example_heap))) 12
       = [(''input'', VRef 11), (''aggregation'', VRef 4), (''calculations'', VRef 10)]
   \<and> objs (snd (projr (init spec_update_other_args spec_bounds spec_super_init (VRef 4) [0]
            (Some (VList [VInt 13, VInt 45, VInt 14, VInt 46])) None VNone () example_heap))) 11
       = [(''bounds'', VRef 7), (''data'', VList [VRef 0])]
   \<and> objs (snd (projr (init spec_update_other_args spec_bounds spec_super_init (VRef 4) [0]
            (Some (VList [VInt 13, VInt 45, VInt 14, VInt 46])) None VNone () example_heap))) 0
       = [(''type'', VStr ''sentinel-2-l2a''), (''dataFilter'', VRef 8)]
   \<and> objs (snd (projr (init spec_update_other_args spec_bounds spec_super_init (VRef 4) [0]
            (Some (VList [VInt 13, VInt 45, VInt 14, VInt 46])) None VNone () example_heap))) 8
       = []
   \<and> objs (snd (projr (init spec_update_other_args spec_bounds spec_super_init (VRef 4) [0]
            (Some (VList [VInt 13, VInt 45, VInt 14, VInt 46])) None VNone () example_heap))) 10
       = [(''default'', VRef 9)]
   \<and> objs (snd (projr (init spec_update_other_args spec_bounds spec_super_init (VRef 4) [0]
            (Some (VList [VInt 13, VInt 45, VInt 14, VInt 46])) None VNone () example_heap))) 9
       = []"
proof -
  define hb where "hb = snd (alloc [(''bbox'', VList [VInt 13, VInt 45, VInt 14, VInt 46])] example_heap)"
  have bounds_ok: "spec_bounds (Some (VList [VInt 13, VInt 45, VInt 14, VInt 46])) None example_heap
      = Inr (VRef 7, hb)"
    by (simp add: spec_bounds_def hb_def alloc_def example_heap_def)
  have bounds_grows: "nextaddr example_heap \<le> nextaddr hb"
    by (simp add: hb_def alloc_def)
  have bounds_frame: "\<forall>x<nextaddr example_heap. objs hb x = objs example_heap x"
    by (simp add: hb_def alloc_def)
  have entry_old: "0 < nextaddr example_heap"
    by (simp add: example_heap_def)
  have entry_lacks: "\<not> has_key ''dataFilter'' (objs example_heap 0)"
    by (simp add: example_heap_def has_key_def)
  have super_ok: "\<forall>self k. \<exists>k'. spec_super_init () self k = Inr (self, k')
                      \<and> (\<forall>x<nextaddr k. objs k' x = objs k x)"
    by (simp add: spec_super_init_def)
  from init_stores_payload_and_mime_type
      [where bounds = spec_bounds and super_init = spec_super_init
         and upd = spec_update_other_args and aggregation' = "VRef 4",
       OF bounds_ok bounds_grows bounds_frame entry_old entry_lacks super_ok]
  have "\<exists>self hf. init spec_update_other_args spec_bounds spec_super_init (VRef 4) [0]
            (Some (VList [VInt 13, VInt 45, VInt 14, VInt 46])) None VNone () example_heap
          = Inr (self, hf)"
    by blast
  then have "\<not> isl (init spec_update_other_args spec_bounds spec_super_init (VRef 4) [0]
            (Some (VList [VInt 13, VInt 45, VInt 14, VInt 46])) None VNone () example_heap)"
    by auto
  then show ?thesis
    by (simp add: init_def spec_bounds_def spec_super_init_def body_default_calculations Let_def
        example_heap_def has_key_def alloc_def setitem_def)
qed

end
